theory Spec2Isabelle
  imports Main "HOL-Library.Word"
begin

section \<open>The byte stream and the primitive reader of \<open>utils/torchfile.py\<close>\<close>

text \<open>
  The reader works on a file opened with \<open>open(filename, 'rb')\<close>. The model keeps the
  bytes that are still in front of the cursor: reading takes them from the front.
  Every exception the Python code can raise is a constructor of \<open>error\<close>; a function
  that can raise returns \<open>error + result\<close>, with \<open>Inl\<close> for the exception.
  \<open>RecursionError\<close> is what the interpreter raises when \<open>read_obj\<close> nests deeper than
  the recursion budget the model passes along.
\<close>

type_synonym byte = "8 word"

text \<open>A Python 3 \<open>str\<close> is a sequence of code points.\<close>

type_synonym str = "nat list"

definition ascii :: "string \<Rightarrow> str" where
  "ascii s = map of_char s"

datatype error =
    StructError
  | EOFError
  | ValueError
  | UnicodeDecodeError
  | TypeError
  | AttributeError
  | KeyError
  | T7ReaderException str
  | RecursionError

text \<open>
  What the code takes from the platform it runs on: the width of a C \<open>long\<close>
  (\<open>struct.calcsize('l')\<close>, also the item size of \<open>array('l')\<close>), and the builtin
  \<open>int\<close> applied to a \<open>str\<close> (\<open>None\<close> where it raises \<open>ValueError\<close>), and the shapes
  numpy accepts for an array (\<open>as_strided\<close> raises \<open>ValueError\<close> for the others).
  Integers are decoded little-endian, two's complement.
\<close>

record platform =
  long_size :: nat
  py_int :: "str \<Rightarrow> int option"
  np_shape_ok :: "int list \<Rightarrow> bool"

subsection \<open>\<open>file.read\<close>\<close>

text \<open>
  \<open>f.read(n)\<close> of a buffered binary file: up to \<open>n\<close> bytes for \<open>n \<ge> 0\<close> (fewer when
  the file ends first, and that is no error), everything that is left for \<open>n = -1\<close>,
  \<open>ValueError\<close> for \<open>n < -1\<close>.
\<close>

definition file_read :: "int \<Rightarrow> byte list \<Rightarrow> error + (byte list \<times> byte list)" where
  "file_read n bs =
     (if n < - 1 then Inl ValueError
      else if n = - 1 then Inr (bs, [])
      else Inr (take (nat n) bs, drop (nat n) bs))"

subsection \<open>\<open>struct.unpack\<close>\<close>

datatype fmt = Fmt_i | Fmt_l | Fmt_q | Fmt_f | Fmt_d

fun calcsize :: "platform \<Rightarrow> fmt \<Rightarrow> nat" where
  "calcsize pf Fmt_i = 4"
| "calcsize pf Fmt_l = long_size pf"
| "calcsize pf Fmt_q = 8"
| "calcsize pf Fmt_f = 4"
| "calcsize pf Fmt_d = 8"

text \<open>The unsigned and the signed value of a little-endian byte string.\<close>

fun le_uint :: "byte list \<Rightarrow> int" where
  "le_uint [] = 0"
| "le_uint (b # bs) = uint b + 256 * le_uint bs"

definition le_sint :: "byte list \<Rightarrow> int" where
  "le_sint bs =
     (let u = le_uint bs; w = 8 * length bs
      in if w = 0 then 0 else if u < 2 ^ (w - 1) then u else u - 2 ^ w)"

text \<open>
  \<open>_read(fmt)\<close>: \<open>struct.unpack(fmt, self.f.read(sz))\<close>. \<open>struct.unpack\<close> raises
  \<open>struct.error\<close> unless it is given exactly \<open>sz\<close> bytes. The model returns the \<open>sz\<close>
  raw bytes; the callers decode them.
\<close>

definition read_fmt :: "platform \<Rightarrow> fmt \<Rightarrow> byte list \<Rightarrow> error + (byte list \<times> byte list)" where
  "read_fmt pf fm bs =
     (let sz = calcsize pf fm in
      case file_read (int sz) bs of
        Inl e \<Rightarrow> Inl e
      | Inr (buf, rest) \<Rightarrow> if length buf \<noteq> sz then Inl StructError else Inr (buf, rest))"

definition read_int :: "platform \<Rightarrow> byte list \<Rightarrow> error + (int \<times> byte list)" where
  "read_int pf bs =
     (case read_fmt pf Fmt_i bs of
        Inl e \<Rightarrow> Inl e
      | Inr (buf, rest) \<Rightarrow> Inr (le_sint buf, rest))"

definition read_boolean :: "platform \<Rightarrow> byte list \<Rightarrow> error + (bool \<times> byte list)" where
  "read_boolean pf bs =
     (case read_int pf bs of
        Inl e \<Rightarrow> Inl e
      | Inr (i, rest) \<Rightarrow> Inr (i = 1, rest))"

definition read_long :: "platform \<Rightarrow> bool \<Rightarrow> byte list \<Rightarrow> error + (int \<times> byte list)" where
  "read_long pf force_8bytes_long bs =
     (case read_fmt pf (if force_8bytes_long then Fmt_q else Fmt_l) bs of
        Inl e \<Rightarrow> Inl e
      | Inr (buf, rest) \<Rightarrow> Inr (le_sint buf, rest))"

text \<open>
  \<open>read_long_array(n)\<close>. With \<open>force_8bytes_long\<close> it is a loop of \<open>n\<close> calls of
  \<open>read_long\<close> (none for \<open>n \<le> 0\<close>). Otherwise it is \<open>array('l').fromfile(f, n)\<close>, which
  raises \<open>ValueError\<close> for a negative count, asks the file for \<open>n * itemsize\<close> bytes,
  and raises when it got fewer: \<open>ValueError\<close> when what it got is no whole number of
  items, \<open>EOFError\<close> otherwise.
\<close>

fun read_longs :: "platform \<Rightarrow> nat \<Rightarrow> byte list \<Rightarrow> error + (int list \<times> byte list)" where
  "read_longs pf 0 bs = Inr ([], bs)"
| "read_longs pf (Suc n) bs =
     (case read_long pf True bs of
        Inl e \<Rightarrow> Inl e
      | Inr (x, rest) \<Rightarrow>
          (case read_longs pf n rest of
             Inl e \<Rightarrow> Inl e
           | Inr (xs, rest') \<Rightarrow> Inr (x # xs, rest')))"

fun chunks :: "nat \<Rightarrow> nat \<Rightarrow> byte list \<Rightarrow> byte list list" where
  "chunks sz 0 bs = []"
| "chunks sz (Suc n) bs = take sz bs # chunks sz n (drop sz bs)"

definition read_long_array :: "platform \<Rightarrow> bool \<Rightarrow> int \<Rightarrow> byte list \<Rightarrow> error + (int list \<times> byte list)" where
  "read_long_array pf force_8bytes_long n bs =
     (if force_8bytes_long then read_longs pf (nat n) bs
      else if n < 0 then Inl ValueError
      else
        (case file_read (n * int (long_size pf)) bs of
           Inl e \<Rightarrow> Inl e
         | Inr (buf, rest) \<Rightarrow>
             if length buf \<noteq> nat n * long_size pf then
               (if length buf mod long_size pf \<noteq> 0 then Inl ValueError else Inl EOFError)
             else Inr (map le_sint (chunks (long_size pf) (nat n) buf), rest)))"

text \<open>
  \<open>read_float\<close> and \<open>read_double\<close> return the IEEE 754 bit pattern; a Python \<open>float\<close>
  is modelled by the 64 bits of its double.
\<close>

definition read_float :: "platform \<Rightarrow> byte list \<Rightarrow> error + (32 word \<times> byte list)" where
  "read_float pf bs =
     (case read_fmt pf Fmt_f bs of
        Inl e \<Rightarrow> Inl e
      | Inr (buf, rest) \<Rightarrow> Inr (word_of_int (le_uint buf), rest))"

definition read_double :: "platform \<Rightarrow> byte list \<Rightarrow> error + (64 word \<times> byte list)" where
  "read_double pf bs =
     (case read_fmt pf Fmt_d bs of
        Inl e \<Rightarrow> Inl e
      | Inr (buf, rest) \<Rightarrow> Inr (word_of_int (le_uint buf), rest))"

subsection \<open>\<open>bytes.decode()\<close>\<close>

text \<open>
  \<open>bytes.decode()\<close> decodes UTF-8 and is strict: a byte string that is not well-formed
  UTF-8 raises \<open>UnicodeDecodeError\<close> (\<open>None\<close> here). Overlong forms, surrogates and
  code points above U+10FFFF are not well formed.
\<close>

definition cont :: "byte \<Rightarrow> nat \<Rightarrow> nat \<Rightarrow> bool" where
  "cont b lo hi = (lo \<le> unat b \<and> unat b \<le> hi)"

fun utf8_decode :: "byte list \<Rightarrow> str option" where
  "utf8_decode [] = Some []"
| "utf8_decode (b0 # bs) =
     (let c = unat b0 in
      if c < 0x80 then map_option ((#) c) (utf8_decode bs)
      else if 0xC2 \<le> c \<and> c \<le> 0xDF then
        (case bs of
           b1 # r \<Rightarrow>
             if cont b1 0x80 0xBF
             then map_option ((#) ((c - 0xC0) * 64 + (unat b1 - 0x80))) (utf8_decode r)
             else None
         | _ \<Rightarrow> None)
      else if 0xE0 \<le> c \<and> c \<le> 0xEF then
        (case bs of
           b1 # b2 # r \<Rightarrow>
             if cont b1 (if c = 0xE0 then 0xA0 else 0x80) (if c = 0xED then 0x9F else 0xBF)
                \<and> cont b2 0x80 0xBF
             then map_option
                    ((#) ((c - 0xE0) * 4096 + (unat b1 - 0x80) * 64 + (unat b2 - 0x80)))
                    (utf8_decode r)
             else None
         | _ \<Rightarrow> None)
      else if 0xF0 \<le> c \<and> c \<le> 0xF4 then
        (case bs of
           b1 # b2 # b3 # r \<Rightarrow>
             if cont b1 (if c = 0xF0 then 0x90 else 0x80) (if c = 0xF4 then 0x8F else 0xBF)
                \<and> cont b2 0x80 0xBF \<and> cont b3 0x80 0xBF
             then map_option
                    ((#) ((c - 0xF0) * 262144 + (unat b1 - 0x80) * 4096
                          + (unat b2 - 0x80) * 64 + (unat b3 - 0x80)))
                    (utf8_decode r)
             else None
         | _ \<Rightarrow> None)
      else None)"

text \<open>
  \<open>read_string\<close>: \<open>size = self.read_int(); bytes = self.f.read(size);
  return bytes.decode()\<close>.
\<close>

definition read_string :: "platform \<Rightarrow> byte list \<Rightarrow> error + (str \<times> byte list)" where
  "read_string pf bs =
     (case read_int pf bs of
        Inl e \<Rightarrow> Inl e
      | Inr (sz, rest) \<Rightarrow>
          (case file_read sz rest of
             Inl e \<Rightarrow> Inl e
           | Inr (buf, rest') \<Rightarrow>
               (case utf8_decode buf of
                  None \<Rightarrow> Inl UnicodeDecodeError
                | Some s \<Rightarrow> Inr (s, rest'))))"

section \<open>Values\<close>

subsection \<open>Floats\<close>

text \<open>
  A double is sign (bit 63), biased exponent (bits 62 to 52) and fraction (bits 51 to 0).
  \<open>x.is_integer()\<close> is false for infinities and NaN and true for a finite value
  without fractional part; \<open>int(x)\<close> is that value. Both are computed on the bits.
\<close>

definition float_exp :: "64 word \<Rightarrow> int" where
  "float_exp w = (uint w div 2 ^ 52) mod 2 ^ 11"

definition float_frac :: "64 word \<Rightarrow> int" where
  "float_frac w = uint w mod 2 ^ 52"

definition float_neg :: "64 word \<Rightarrow> bool" where
  "float_neg w = (2 ^ 63 \<le> uint w)"

definition float_is_nan :: "64 word \<Rightarrow> bool" where
  "float_is_nan w = (float_exp w = 2047 \<and> float_frac w \<noteq> 0)"

definition is_integer :: "64 word \<Rightarrow> bool" where
  "is_integer w =
     (let e = float_exp w; m = float_frac w
      in if e = 2047 then False
         else if e = 0 then m = 0
         else if 1075 \<le> e then True
         else (2 ^ 52 + m) mod 2 ^ nat (1075 - e) = 0)"

definition float_to_int :: "64 word \<Rightarrow> int" where
  "float_to_int w =
     (let e = float_exp w; m = float_frac w;
          mag = (if e = 0 then 0
                 else if 1075 \<le> e then (2 ^ 52 + m) * 2 ^ nat (e - 1075)
                 else (2 ^ 52 + m) div 2 ^ nat (1075 - e))
      in if float_neg w then - mag else mag)"

subsection \<open>Python values and the heap\<close>

text \<open>
  \<open>None\<close>, booleans, integers, floats and strings are immutable and compared by value.
  A \<open>hashable_uniq_dict\<close>, a list, a \<open>TorchObject\<close> and a numpy array are objects with
  an identity: they live in a heap, and a value refers to them by address (\<open>VRef\<close>).
  A \<open>LuaFunction\<close> is a named tuple: its fields cannot change and travel with the
  value, and its first component is the address that gives it its identity.
\<close>

datatype dtype = UInt8 | Int8 | Int16 | Int32 | Int64 | Float32 | Float64

fun itemsize :: "dtype \<Rightarrow> nat" where
  "itemsize UInt8 = 1"
| "itemsize Int8 = 1"
| "itemsize Int16 = 2"
| "itemsize Int32 = 4"
| "itemsize Int64 = 8"
| "itemsize Float32 = 4"
| "itemsize Float64 = 8"

datatype pyval =
    VNone
  | VBool bool
  | VInt int
  | VFloat "64 word"
  | VStr str
  | VRef nat
  | VFunc nat int "byte list" pyval

text \<open>
  A numpy array is either a one-dimensional array that owns its bytes (what
  \<open>np.fromfile\<close> and \<open>np.empty((0), dtype)\<close> return), or the view
  \<open>as_strided(base[start:], shape, strides)\<close> over the array at address \<open>base\<close>, with
  the strides in bytes.
\<close>

datatype ndarray =
    Owned dtype "byte list"
  | AsStrided dtype nat int "int list" "int list"

fun nd_dtype :: "ndarray \<Rightarrow> dtype" where
  "nd_dtype (Owned dt bs) = dt"
| "nd_dtype (AsStrided dt base start shape strides) = dt"

type_synonym dict = "(pyval \<times> pyval) list"

datatype pyobj =
    ODict dict
  | OList "pyval list"
  | OTorch str pyval
  | ONdArray ndarray
  | OLuaFunction

definition heap_get :: "pyobj list \<Rightarrow> nat \<Rightarrow> pyobj option" where
  "heap_get h a = (if a < length h then Some (h ! a) else None)"

subsection \<open>Keys of a \<open>hashable_uniq_dict\<close>\<close>

text \<open>
  \<open>obj[k] = v\<close> hashes \<open>k\<close> and raises \<open>TypeError\<close> for a list, a numpy array, and a
  \<open>LuaFunction\<close> whose upvalues are not hashable. Two keys are the same key when they are
  the same object or compare equal: \<open>hashable_uniq_dict\<close> and \<open>TorchObject\<close> by
  identity, tuples field by field, \<open>bool\<close>, \<open>int\<close> and \<open>float\<close> by their numeric value
  (\<open>True == 1 == 1.0\<close>, and a NaN equals nothing).
\<close>

fun hashable :: "pyobj list \<Rightarrow> pyval \<Rightarrow> bool" where
  "hashable h (VRef a) =
     (case heap_get h a of
        Some (ODict d) \<Rightarrow> True
      | Some (OTorch n v) \<Rightarrow> True
      | _ \<Rightarrow> False)"
| "hashable h (VFunc a sz dumped upvalues) = hashable h upvalues"
| "hashable h v = True"

text \<open>\<open>isinstance(k, int)\<close>, with the integer: \<open>bool\<close> is a subclass of \<open>int\<close>.\<close>

fun as_int :: "pyval \<Rightarrow> int option" where
  "as_int (VBool b) = Some (if b then 1 else 0)"
| "as_int (VInt i) = Some i"
| "as_int v = None"

fun num_key :: "pyval \<Rightarrow> int option" where
  "num_key (VBool b) = Some (if b then 1 else 0)"
| "num_key (VInt i) = Some i"
| "num_key (VFloat w) = (if is_integer w then Some (float_to_int w) else None)"
| "num_key v = None"

fun is_number :: "pyval \<Rightarrow> bool" where
  "is_number (VBool b) = True"
| "is_number (VInt i) = True"
| "is_number (VFloat w) = True"
| "is_number v = False"

definition num_eq :: "pyval \<Rightarrow> pyval \<Rightarrow> bool" where
  "num_eq a b =
     (case (num_key a, num_key b) of
        (Some i, Some j) \<Rightarrow> i = j
      | (None, None) \<Rightarrow>
          (case (a, b) of
             (VFloat x, VFloat y) \<Rightarrow> \<not> float_is_nan x \<and> x = y
           | _ \<Rightarrow> False)
      | _ \<Rightarrow> False)"

fun py_eq :: "pyval \<Rightarrow> pyval \<Rightarrow> bool" where
  "py_eq (VFunc a sz dumped upvalues) (VFunc a' sz' dumped' upvalues') =
     (a = a' \<or> (sz = sz' \<and> dumped = dumped' \<and> py_eq upvalues upvalues'))"
| "py_eq (VStr s) (VStr t) = (s = t)"
| "py_eq (VRef a) (VRef b) = (a = b)"
| "py_eq VNone VNone = True"
| "py_eq a b = (is_number a \<and> is_number b \<and> num_eq a b)"

fun dict_set :: "dict \<Rightarrow> pyval \<Rightarrow> pyval \<Rightarrow> dict" where
  "dict_set [] k v = [(k, v)]"
| "dict_set ((k', v') # d) k v =
     (if py_eq k' k then (k', v) # d else (k', v') # dict_set d k v)"

fun dict_get :: "dict \<Rightarrow> pyval \<Rightarrow> pyval option" where
  "dict_get [] k = None"
| "dict_get ((k', v') # d) k = (if py_eq k' k then Some v' else dict_get d k)"

section \<open>The reader\<close>

text \<open>
  \<open>T7Reader\<close>: the file, the table \<open>objects\<close> of the objects read so far, and the four
  options. \<open>heap\<close> holds the Python objects the reader has created.
\<close>

record reader =
  fileobj :: "byte list"
  objects :: "int \<rightharpoonup> pyval"
  heap :: "pyobj list"
  use_list_heuristic :: bool
  use_int_heuristic :: bool
  force_deserialize_classes :: bool
  force_8bytes_long :: bool

definition T7Reader :: "byte list \<Rightarrow> bool \<Rightarrow> bool \<Rightarrow> bool \<Rightarrow> bool \<Rightarrow> reader" where
  "T7Reader bs list_h int_h force_classes force_long =
     \<lparr>fileobj = bs, objects = Map.empty, heap = [],
      use_list_heuristic = list_h, use_int_heuristic = int_h,
      force_deserialize_classes = force_classes, force_8bytes_long = force_long\<rparr>"

text \<open>The defaults of \<open>T7Reader.__init__\<close>.\<close>

definition T7Reader_default :: "byte list \<Rightarrow> reader" where
  "T7Reader_default bs = T7Reader bs True True True False"

definition alloc :: "pyobj \<Rightarrow> reader \<Rightarrow> nat \<times> reader" where
  "alloc ob r = (length (heap r), r\<lparr>heap := heap r @ [ob]\<rparr>)"

text \<open>A read on the reader's file.\<close>

definition on_file ::
  "(byte list \<Rightarrow> error + ('a \<times> byte list)) \<Rightarrow> reader \<Rightarrow> error + ('a \<times> reader)" where
  "on_file p r =
     (case p (fileobj r) of
        Inl e \<Rightarrow> Inl e
      | Inr (x, rest) \<Rightarrow> Inr (x, r\<lparr>fileobj := rest\<rparr>))"

subsection \<open>The registry \<open>torch_readers\<close>\<close>

definition tensor_classes :: "(string \<times> dtype) list" where
  "tensor_classes =
     [(''torch.ByteTensor'', UInt8),
      (''torch.CharTensor'', Int8),
      (''torch.ShortTensor'', Int16),
      (''torch.IntTensor'', Int32),
      (''torch.LongTensor'', Int64),
      (''torch.FloatTensor'', Float32),
      (''torch.DoubleTensor'', Float64),
      (''torch.CudaTensor'', Float32),
      (''torch.CudaByteTensor'', UInt8),
      (''torch.CudaCharTensor'', Int8),
      (''torch.CudaShortTensor'', Int16),
      (''torch.CudaIntTensor'', Int32),
      (''torch.CudaDoubleTensor'', Float64)]"

definition storage_classes :: "(string \<times> dtype) list" where
  "storage_classes =
     [(''torch.ByteStorage'', UInt8),
      (''torch.CharStorage'', Int8),
      (''torch.ShortStorage'', Int16),
      (''torch.IntStorage'', Int32),
      (''torch.LongStorage'', Int64),
      (''torch.FloatStorage'', Float32),
      (''torch.DoubleStorage'', Float64),
      (''torch.CudaStorage'', Float32),
      (''torch.CudaByteStorage'', UInt8),
      (''torch.CudaCharStorage'', Int8),
      (''torch.CudaShortStorage'', Int16),
      (''torch.CudaIntStorage'', Int32),
      (''torch.CudaDoubleStorage'', Float64)]"

definition trivial_classes :: "string list" where
  "trivial_classes =
     [''nn.ConcatTable'', ''nn.SpatialAveragePooling'', ''nn.TemporalConvolutionFB'',
      ''nn.BCECriterion'', ''nn.Reshape'', ''nn.gModule'', ''nn.SparseLinear'',
      ''nn.WeightedLookupTable'', ''nn.CAddTable'', ''nn.TemporalConvolution'',
      ''nn.PairwiseDistance'', ''nn.WeightedMSECriterion'', ''nn.SmoothL1Criterion'',
      ''nn.TemporalSubSampling'', ''nn.TanhShrink'', ''nn.MixtureTable'', ''nn.Mul'',
      ''nn.LogSoftMax'', ''nn.Min'', ''nn.Exp'', ''nn.Add'', ''nn.BatchNormalization'',
      ''nn.AbsCriterion'', ''nn.MultiCriterion'', ''nn.LookupTableGPU'', ''nn.Max'',
      ''nn.MulConstant'', ''nn.NarrowTable'', ''nn.View'',
      ''nn.ClassNLLCriterionWithUNK'', ''nn.VolumetricConvolution'',
      ''nn.SpatialSubSampling'', ''nn.HardTanh'', ''nn.DistKLDivCriterion'',
      ''nn.SplitTable'', ''nn.DotProduct'', ''nn.HingeEmbeddingCriterion'',
      ''nn.SpatialBatchNormalization'', ''nn.DepthConcat'', ''nn.Sigmoid'',
      ''nn.SpatialAdaptiveMaxPooling'', ''nn.Parallel'', ''nn.SoftShrink'',
      ''nn.SpatialSubtractiveNormalization'', ''nn.TrueNLLCriterion'', ''nn.Log'',
      ''nn.SpatialDropout'', ''nn.LeakyReLU'', ''nn.VolumetricMaxPooling'',
      ''nn.KMaxPooling'', ''nn.Linear'', ''nn.Euclidean'', ''nn.CriterionTable'',
      ''nn.SpatialMaxPooling'', ''nn.TemporalKMaxPooling'', ''nn.MultiMarginCriterion'',
      ''nn.ELU'', ''nn.CSubTable'', ''nn.MultiLabelMarginCriterion'', ''nn.Copy'',
      ''nn.CuBLASWrapper'', ''nn.L1HingeEmbeddingCriterion'',
      ''nn.VolumetricAveragePooling'', ''nn.StochasticGradient'',
      ''nn.SpatialContrastiveNormalization'', ''nn.CosineEmbeddingCriterion'',
      ''nn.CachingLookupTable'', ''nn.FeatureLPPooling'', ''nn.Padding'',
      ''nn.Container'', ''nn.MarginRankingCriterion'', ''nn.Module'',
      ''nn.ParallelCriterion'', ''nn.DataParallelTable'', ''nn.Concat'',
      ''nn.CrossEntropyCriterion'', ''nn.LookupTable'', ''nn.SpatialSoftMax'',
      ''nn.HardShrink'', ''nn.Abs'', ''nn.SoftMin'', ''nn.WeightedEuclidean'',
      ''nn.Replicate'', ''nn.DataParallel'', ''nn.OneBitQuantization'',
      ''nn.OneBitDataParallel'', ''nn.AddConstant'', ''nn.L1Cost'', ''nn.HSM'',
      ''nn.PReLU'', ''nn.JoinTable'', ''nn.ClassNLLCriterion'', ''nn.CMul'',
      ''nn.CosineDistance'', ''nn.Index'', ''nn.Mean'', ''nn.FFTWrapper'',
      ''nn.Dropout'', ''nn.SpatialConvolutionCuFFT'', ''nn.SoftPlus'',
      ''nn.AbstractParallel'', ''nn.SequentialCriterion'', ''nn.LocallyConnected'',
      ''nn.SpatialDivisiveNormalization'', ''nn.L1Penalty'', ''nn.Threshold'',
      ''nn.Power'', ''nn.Sqrt'', ''nn.MM'', ''nn.GroupKMaxPooling'',
      ''nn.CrossMapNormalization'', ''nn.ReLU'', ''nn.ClassHierarchicalNLLCriterion'',
      ''nn.Optim'', ''nn.SoftMax'', ''nn.SpatialConvolutionMM'', ''nn.Cosine'',
      ''nn.Clamp'', ''nn.CMulTable'', ''nn.LogSigmoid'', ''nn.LinearNB'',
      ''nn.TemporalMaxPooling'', ''nn.MSECriterion'', ''nn.Sum'', ''nn.SoftSign'',
      ''nn.Normalize'', ''nn.ParallelTable'', ''nn.FlattenTable'', ''nn.CDivTable'',
      ''nn.Tanh'', ''nn.ModuleFromCriterion'', ''nn.Square'', ''nn.Select'',
      ''nn.GradientReversal'', ''nn.SpatialFullConvolutionMap'',
      ''nn.SpatialConvolution'', ''nn.Criterion'', ''nn.SpatialConvolutionMap'',
      ''nn.SpatialLPPooling'', ''nn.Sequential'', ''nn.Transpose'',
      ''nn.SpatialUpSamplingNearest'', ''nn.SpatialFullConvolution'',
      ''nn.ModelParallel'', ''nn.RReLU'', ''nn.SpatialZeroPadding'', ''nn.Identity'',
      ''nn.Narrow'', ''nn.MarginCriterion'', ''nn.SelectTable'',
      ''nn.VolumetricFullConvolution'', ''nn.SpatialFractionalMaxPooling'',
      ''fbnn.ProjectiveGradientNormalization'', ''fbnn.Probe'', ''fbnn.SparseLinear'',
      ''cudnn._Pooling3D'', ''cudnn.VolumetricMaxPooling'',
      ''cudnn.SpatialCrossEntropyCriterion'', ''cudnn.VolumetricConvolution'',
      ''cudnn.SpatialAveragePooling'', ''cudnn.Tanh'', ''cudnn.LogSoftMax'',
      ''cudnn.SpatialConvolution'', ''cudnn._Pooling'', ''cudnn.SpatialMaxPooling'',
      ''cudnn.ReLU'', ''cudnn.SpatialCrossMapLRN'', ''cudnn.SoftMax'',
      ''cudnn._Pointwise'', ''cudnn.SpatialSoftMax'', ''cudnn.Sigmoid'',
      ''cudnn.SpatialLogSoftMax'', ''cudnn.VolumetricAveragePooling'', ''nngraph.Node'',
      ''nngraph.JustTable'', ''graph.Edge'', ''graph.Node'', ''graph.Graph'']"

datatype class_reader = TensorReader dtype | StorageReader dtype | TrivialReader

definition torch_readers :: "str \<Rightarrow> class_reader option" where
  "torch_readers name =
     (case map_of (map (\<lambda>(n, dt). (ascii n, dt)) tensor_classes) name of
        Some dt \<Rightarrow> Some (TensorReader dt)
      | None \<Rightarrow>
          (case map_of (map (\<lambda>(n, dt). (ascii n, dt)) storage_classes) name of
             Some dt \<Rightarrow> Some (StorageReader dt)
           | None \<Rightarrow>
               if name \<in> set (map ascii trivial_classes) then Some TrivialReader else None))"

subsection \<open>Storages and tensors\<close>

text \<open>The width of a long for this reader: what \<open>read_long\<close> takes.\<close>

definition long_width :: "platform \<Rightarrow> reader \<Rightarrow> nat" where
  "long_width pf r = (if force_8bytes_long r then 8 else long_size pf)"

text \<open>
  \<open>np.fromfile(f, dtype, count)\<close> reads \<open>count\<close> items of the file, or the whole items
  that are left when they are fewer or \<open>count\<close> is negative. A short read is no error.
\<close>

definition np_fromfile :: "dtype \<Rightarrow> int \<Rightarrow> byte list \<Rightarrow> byte list \<times> byte list" where
  "np_fromfile dt count bs =
     (let sz = itemsize dt; avail = length bs div sz
      in if count < 0 \<or> avail < nat count then (take (avail * sz) bs, [])
         else (take (nat count * sz) bs, drop (nat count * sz) bs))"

definition read_storage :: "dtype \<Rightarrow> platform \<Rightarrow> reader \<Rightarrow> error + (pyval \<times> reader)" where
  "read_storage dt pf r =
     (case on_file (read_long pf (force_8bytes_long r)) r of
        Inl e \<Rightarrow> Inl e
      | Inr (sz, r1) \<Rightarrow>
          (let (buf, rest) = np_fromfile dt sz (fileobj r1);
               (a, r2) = alloc (ONdArray (Owned dt buf)) (r1\<lparr>fileobj := rest\<rparr>)
           in Inr (VRef a, r2)))"

text \<open>
  \<open>read_tensor_generic\<close>, with \<open>read_obj\<close> as the parameter \<open>ro\<close>. A \<open>storage\<close> that is
  no numpy array has no usable \<open>dtype.itemsize\<close>: the comprehension over \<open>stride\<close>
  raises (\<open>AttributeError\<close>; the model does not follow a table that carries a
  \<open>dtype\<close> entry any further, where Python raises a line later).
\<close>

definition read_tensor_generic ::
  "dtype \<Rightarrow> platform \<Rightarrow> (reader \<Rightarrow> error + (pyval \<times> reader)) \<Rightarrow> reader
     \<Rightarrow> error + (pyval \<times> reader)" where
  "read_tensor_generic dt pf ro r =
     (case on_file (read_int pf) r of
        Inl e \<Rightarrow> Inl e
      | Inr (ndim, r1) \<Rightarrow>
     (case on_file (read_long_array pf (force_8bytes_long r1) ndim) r1 of
        Inl e \<Rightarrow> Inl e
      | Inr (sizes, r2) \<Rightarrow>
     (case on_file (read_long_array pf (force_8bytes_long r2) ndim) r2 of
        Inl e \<Rightarrow> Inl e
      | Inr (stride, r3) \<Rightarrow>
     (case on_file (read_long pf (force_8bytes_long r3)) r3 of
        Inl e \<Rightarrow> Inl e
      | Inr (off, r4) \<Rightarrow>
     (let storage_offset = off - 1 in
      case ro r4 of
        Inl e \<Rightarrow> Inl e
      | Inr (storage, r5) \<Rightarrow>
          if storage = VNone \<or> ndim = 0 \<or> length sizes = 0 \<or> length stride = 0 then
            (let (a, r6) = alloc (ONdArray (Owned dt [])) r5 in Inr (VRef a, r6))
          else
            (case storage of
               VRef b \<Rightarrow>
                 (case heap_get (heap r5) b of
                    Some (ONdArray nd) \<Rightarrow>
                      (let stride' = map (\<lambda>x. int (itemsize (nd_dtype nd)) * x) stride in
                       if \<not> np_shape_ok pf sizes then Inl ValueError
                       else
                         (let (a, r6) =
                                alloc (ONdArray
                                  (AsStrided (nd_dtype nd) b storage_offset sizes stride')) r5
                          in Inr (VRef a, r6)))
                  | _ \<Rightarrow> Inl AttributeError)
             | _ \<Rightarrow> Inl AttributeError))))))"

text \<open>
  The reader of \<open>add_trivial_class_reader\<close>, which is also what \<open>read_obj\<close> does for a
  class that is not registered: \<open>TorchObject(typename, reader.read_obj())\<close>.
\<close>

definition read_trivial ::
  "str \<Rightarrow> (reader \<Rightarrow> error + (pyval \<times> reader)) \<Rightarrow> reader \<Rightarrow> error + (pyval \<times> reader)" where
  "read_trivial typename ro r =
     (case ro r of
        Inl e \<Rightarrow> Inl e
      | Inr (ob, r1) \<Rightarrow> (let (a, r2) = alloc (OTorch typename ob) r1 in Inr (VRef a, r2)))"

subsection \<open>Tables\<close>

text \<open>
  The bookkeeping of one pass of the table loop, after \<open>obj[k] = v\<close>: with the list
  heuristic, a key that is no \<open>int\<close> or is not positive clears \<open>keys_natural\<close>, and any
  other key is added to \<open>key_sum\<close>.
\<close>

definition table_step :: "bool \<Rightarrow> pyval \<Rightarrow> int \<times> bool \<Rightarrow> int \<times> bool" where
  "table_step use_list k acc =
     (let (key_sum, keys_natural) = acc in
      if use_list then
        (case as_int k of
           None \<Rightarrow> (key_sum, False)
         | Some i \<Rightarrow> if i \<le> 0 then (key_sum, False) else (key_sum + i, keys_natural))
      else (key_sum, keys_natural))"

text \<open>\<open>lst.append(obj[i + 1])\<close> for \<open>i\<close> in \<open>range(len(obj))\<close>; a missing key raises.\<close>

definition table_list :: "dict \<Rightarrow> error + pyval list" where
  "table_list d =
     (let xs = map (\<lambda>i. dict_get d (VInt (int i + 1))) [0..<length d]
      in if None \<in> set xs then Inl KeyError else Inr (map the xs))"

text \<open>
  What follows the loop. \<open>obj\<close> is a local variable of \<open>read_obj\<close> until here, so the
  model creates the heap cell of the dict, or of the list that replaces it, now.
\<close>

definition finish_table :: "dict \<Rightarrow> int \<Rightarrow> bool \<Rightarrow> reader \<Rightarrow> error + (pyval \<times> reader)" where
  "finish_table d key_sum keys_natural r =
     (let n = int (length d) in
      if use_list_heuristic r \<and> keys_natural \<and> n * (n + 1) = 2 * key_sum then
        (case table_list d of
           Inl e \<Rightarrow> Inl e
         | Inr lst \<Rightarrow> (let (a, r1) = alloc (OList lst) r in Inr (VRef a, r1)))
      else (let (a, r1) = alloc (ODict d) r in Inr (VRef a, r1)))"

subsection \<open>\<open>read_obj\<close>\<close>

definition TYPE_NIL :: int where "TYPE_NIL = 0"
definition TYPE_NUMBER :: int where "TYPE_NUMBER = 1"
definition TYPE_STRING :: int where "TYPE_STRING = 2"
definition TYPE_TABLE :: int where "TYPE_TABLE = 3"
definition TYPE_TORCH :: int where "TYPE_TORCH = 4"
definition TYPE_BOOLEAN :: int where "TYPE_BOOLEAN = 5"
definition TYPE_FUNCTION :: int where "TYPE_FUNCTION = 6"
definition TYPE_RECUR_FUNCTION :: int where "TYPE_RECUR_FUNCTION = 8"
definition LEGACY_TYPE_RECUR_FUNCTION :: int where "LEGACY_TYPE_RECUR_FUNCTION = 7"

definition set_object :: "int \<Rightarrow> pyval \<Rightarrow> reader \<Rightarrow> reader" where
  "set_object index ob r = r\<lparr>objects := (objects r)(index \<mapsto> ob)\<rparr>"

text \<open>
  Lines 351 to 357 of \<open>read_obj\<close>: the version string, and the class name that follows
  it when the string starts with \<open>V \<close>. \<open>version.partition(' ')[2]\<close> is then the text
  after the first two characters, and \<open>int\<close> of it may raise.
\<close>

definition read_class_name :: "platform \<Rightarrow> reader \<Rightarrow> error + (str \<times> reader)" where
  "read_class_name pf r =
     (case on_file (read_string pf) r of
        Inl e \<Rightarrow> Inl e
      | Inr (version, r1) \<Rightarrow>
          if take 2 version = ascii ''V '' then
            (case py_int pf (drop 2 version) of
               None \<Rightarrow> Inl ValueError
             | Some versionNumber \<Rightarrow> on_file (read_string pf) r1)
          else Inr (version, r1))"

text \<open>
  \<open>read_obj pf depth r\<close>: \<open>depth\<close> bounds how deep \<open>read_obj\<close> may nest, as Python's
  recursion limit does. \<open>read_pairs\<close> is the loop \<open>for i in range(size)\<close> of the table
  branch, with the dict, \<open>key_sum\<close> and \<open>keys_natural\<close> that it updates.
\<close>

fun read_obj :: "platform \<Rightarrow> nat \<Rightarrow> reader \<Rightarrow> error + (pyval \<times> reader)"
and read_pairs ::
  "platform \<Rightarrow> nat \<Rightarrow> nat \<Rightarrow> dict \<Rightarrow> int \<Rightarrow> bool \<Rightarrow> reader
     \<Rightarrow> error + ((dict \<times> int \<times> bool) \<times> reader)"
where
  "read_obj pf 0 r = Inl RecursionError"
| "read_obj pf (Suc depth) r =
     (case on_file (read_int pf) r of
        Inl e \<Rightarrow> Inl e
      | Inr (typeidx, r1) \<Rightarrow>
          if typeidx = TYPE_NIL then Inr (VNone, r1)
          else if typeidx = TYPE_NUMBER then
            (case on_file (read_double pf) r1 of
               Inl e \<Rightarrow> Inl e
             | Inr (x, r2) \<Rightarrow>
                 if use_int_heuristic r2 \<and> is_integer x then Inr (VInt (float_to_int x), r2)
                 else Inr (VFloat x, r2))
          else if typeidx = TYPE_BOOLEAN then
            (case on_file (read_boolean pf) r1 of
               Inl e \<Rightarrow> Inl e
             | Inr (b, r2) \<Rightarrow> Inr (VBool b, r2))
          else if typeidx = TYPE_STRING then
            (case on_file (read_string pf) r1 of
               Inl e \<Rightarrow> Inl e
             | Inr (s, r2) \<Rightarrow> Inr (VStr s, r2))
          else if typeidx = TYPE_TABLE \<or> typeidx = TYPE_TORCH
                  \<or> typeidx = TYPE_FUNCTION \<or> typeidx = TYPE_RECUR_FUNCTION
                  \<or> typeidx = LEGACY_TYPE_RECUR_FUNCTION then
            (case on_file (read_int pf) r1 of
               Inl e \<Rightarrow> Inl e
             | Inr (index, r2) \<Rightarrow>
                 (case objects r2 index of
                    Some ob \<Rightarrow> Inr (ob, r2)
                  | None \<Rightarrow>
                      if typeidx = TYPE_FUNCTION \<or> typeidx = TYPE_RECUR_FUNCTION
                         \<or> typeidx = LEGACY_TYPE_RECUR_FUNCTION then
                        (case on_file (read_int pf) r2 of
                           Inl e \<Rightarrow> Inl e
                         | Inr (sz, r3) \<Rightarrow>
                        (case on_file (file_read sz) r3 of
                           Inl e \<Rightarrow> Inl e
                         | Inr (dumped, r4) \<Rightarrow>
                        (case read_obj pf depth r4 of
                           Inl e \<Rightarrow> Inl e
                         | Inr (upvalues, r5) \<Rightarrow>
                             (let (a, r6) = alloc OLuaFunction r5;
                                  ob = VFunc a sz dumped upvalues
                              in Inr (ob, set_object index ob r6)))))
                      else if typeidx = TYPE_TORCH then
                        (case read_class_name pf r2 of
                           Inl e \<Rightarrow> Inl e
                         | Inr (className, r4) \<Rightarrow>
                        (case (case torch_readers className of
                                 None \<Rightarrow>
                                   if \<not> force_deserialize_classes r4 then
                                     Inl (T7ReaderException
                                       (ascii ''unsupported torch class: <'' @ className
                                        @ ascii ''>''))
                                   else read_trivial className (\<lambda>r'. read_obj pf depth r') r4
                               | Some (TensorReader dt) \<Rightarrow>
                                   read_tensor_generic dt pf (\<lambda>r'. read_obj pf depth r') r4
                               | Some (StorageReader dt) \<Rightarrow> read_storage dt pf r4
                               | Some TrivialReader \<Rightarrow>
                                   read_trivial className (\<lambda>r'. read_obj pf depth r') r4) of
                           Inl e \<Rightarrow> Inl e
                         | Inr (ob, r5) \<Rightarrow> Inr (ob, set_object index ob r5)))
                      else
                        (case on_file (read_int pf) r2 of
                           Inl e \<Rightarrow> Inl e
                         | Inr (sz, r3) \<Rightarrow>
                        (case read_pairs pf depth (nat sz) [] 0 True r3 of
                           Inl e \<Rightarrow> Inl e
                         | Inr ((d, key_sum, keys_natural), r4) \<Rightarrow>
                        (case finish_table d key_sum keys_natural r4 of
                           Inl e \<Rightarrow> Inl e
                         | Inr (ob, r5) \<Rightarrow> Inr (ob, set_object index ob r5))))))
          else Inl (T7ReaderException (ascii ''unknown object'')))"
| "read_pairs pf depth 0 d key_sum keys_natural r = Inr ((d, key_sum, keys_natural), r)"
| "read_pairs pf depth (Suc n) d key_sum keys_natural r =
     (case read_obj pf depth r of
        Inl e \<Rightarrow> Inl e
      | Inr (k, r1) \<Rightarrow>
     (case read_obj pf depth r1 of
        Inl e \<Rightarrow> Inl e
      | Inr (v, r2) \<Rightarrow>
          if \<not> hashable (heap r2) k then Inl TypeError
          else
            (let (key_sum', keys_natural') =
                   table_step (use_list_heuristic r2) k (key_sum, keys_natural)
             in read_pairs pf depth n (dict_set d k v) key_sum' keys_natural' r2)))"

text \<open>\<open>load\<close> with the default settings: a reader on the file's bytes, and one \<open>read_obj\<close>.\<close>

definition load :: "platform \<Rightarrow> nat \<Rightarrow> byte list \<Rightarrow> error + (pyval \<times> reader)" where
  "load pf depth bs = read_obj pf depth (T7Reader_default bs)"

subsection \<open>A platform to run the reader on\<close>

text \<open>
  A 64-bit Linux: \<open>long\<close> has eight bytes, numpy takes up to 32 dimensions, none of them
  negative. \<open>int\<close> is restricted to plain decimal digits.
\<close>

definition decimal :: "str \<Rightarrow> int option" where
  "decimal s =
     (if s \<noteq> [] \<and> list_all (\<lambda>c. 48 \<le> c \<and> c \<le> 57) s
      then Some (foldl (\<lambda>a c. 10 * a + (int c - 48)) 0 s) else None)"

definition lp64 :: platform where
  "lp64 = \<lparr>long_size = 8, py_int = decimal,
            np_shape_ok = (\<lambda>shape. length shape \<le> 32 \<and> list_all (\<lambda>x. 0 \<le> x) shape)\<rparr>"

text \<open>The four bytes of a small non-negative \<open>int\<close>.\<close>

definition i32 :: "nat \<Rightarrow> byte list" where
  "i32 n = [of_nat n, 0, 0, 0]"

section \<open>Properties of the primitive reader\<close>

lemma file_read_nat: "file_read (int n) bs = Inr (take n bs, drop n bs)"
  by (simp add: file_read_def)

lemma read_fmt_eq:
  "read_fmt pf fm bs =
     (if length bs < calcsize pf fm then Inl StructError
      else Inr (take (calcsize pf fm) bs, drop (calcsize pf fm) bs))"
  by (auto simp: read_fmt_def file_read_nat Let_def min_def)

lemma read_int_eq:
  "read_int pf bs =
     (if length bs < 4 then Inl StructError else Inr (le_sint (take 4 bs), drop 4 bs))"
  by (simp add: read_int_def read_fmt_eq)

lemma read_int_bytes:
  "read_int pf (b0 # b1 # b2 # b3 # rest) = Inr (le_sint [b0, b1, b2, b3], rest)"
  by (simp add: read_int_eq)


lemmas TYPE_defs = TYPE_NIL_def TYPE_NUMBER_def TYPE_STRING_def TYPE_TABLE_def TYPE_TORCH_def
  TYPE_BOOLEAN_def TYPE_FUNCTION_def TYPE_RECUR_FUNCTION_def LEGACY_TYPE_RECUR_FUNCTION_def

lemma read_long_eq:
  "read_long pf force bs =
     (let w = (if force then 8 else long_size pf) in
      if length bs < w then Inl StructError
      else Inr (le_sint (take w bs), drop w bs))"
  by (simp add: read_long_def read_fmt_eq Let_def)

text \<open>
  Claim C8, as the code has it. \<open>read_long\<close> takes eight bytes when
  \<open>force_8bytes_long\<close> is set. Without the option it takes as many bytes as a C
  \<open>long\<close> has on the platform, because the format \<open>'l'\<close> is a native one: four or
  eight. The bytes of the stream never decide the width, and a stream with fewer bytes
  left is an error.
\<close>

theorem read_long_width:
  "read_long pf force bs =
     (let w = (if force then 8 else long_size pf) in
      if length bs < w then Inl StructError
      else Inr (le_sint (take w bs), drop w bs))"
  by (rule read_long_eq)

text \<open>
  Claim C8 as the specification states it fails where \<open>long\<close> has eight bytes: with
  the default options, \<open>read_long\<close> takes eight of these nine bytes, not four.
\<close>

theorem read_long_default_takes_eight:
  "read_long lp64 False [1, 0, 0, 0, 2, 0, 0, 0, 9] = Inr (8589934593, [9])"
  by (simp add: read_long_def read_fmt_eq lp64_def le_sint_def)

text \<open>
  Claim C4: a read past the end of the stream raises and returns no shortened data.
  \<open>read_string\<close> does not: asked for a payload of five bytes when two are left, it
  returns the two.
\<close>

theorem read_string_truncated:
  "read_string lp64 (i32 5 @ [0x61, 0x62]) = Inr ([97, 98], [])"
  by (simp add: read_string_def read_int_eq file_read_def i32_def le_sint_def cont_def)

text \<open>
  Claim C5: \<open>read_string\<close> accepts every byte content. It does not: the payload of the
  single byte \<open>0xFF\<close> is rejected by \<open>bytes.decode()\<close>.
\<close>

theorem read_string_invalid_utf8:
  "read_string lp64 (i32 1 @ [0xFF]) = Inl UnicodeDecodeError"
  by (simp add: read_string_def read_int_eq file_read_def i32_def le_sint_def cont_def)

section \<open>Properties of \<open>read_obj\<close>\<close>

declare read_obj.simps [simp del] read_pairs.simps [simp del]

lemma on_file_same:
  "on_file p r = Inr (x, r') \<Longrightarrow> r' = r\<lparr>fileobj := fileobj r'\<rparr>"
  by (auto simp: on_file_def split: sum.splits)

lemma read_class_name_same:
  "read_class_name pf r = Inr (c, r') \<Longrightarrow> r' = r\<lparr>fileobj := fileobj r'\<rparr>"
  by (auto simp: read_class_name_def on_file_def split: sum.splits if_splits option.splits)

lemma le_sint_tags:
  "le_sint [0, 0, 0, 0] = 0" "le_sint [1, 0, 0, 0] = 1" "le_sint [2, 0, 0, 0] = 2"
  "le_sint [3, 0, 0, 0] = 3" "le_sint [4, 0, 0, 0] = 4" "le_sint [5, 0, 0, 0] = 5"
  "le_sint [6, 0, 0, 0] = 6" "le_sint [7, 0, 0, 0] = 7" "le_sint [8, 0, 0, 0] = 8"
  by (simp_all add: le_sint_def)





text \<open>
  Claim C7: a class instance with a fresh index whose class name is not in
  \<open>torch_readers\<close>. With \<open>force_deserialize_classes\<close> (the default) \<open>read_obj\<close> reads
  one nested value and returns a new \<open>TorchObject\<close> of the class name and that value,
  stored under the index; it fails only where the nested \<open>read_obj\<close> fails. Without
  the option it raises \<open>T7ReaderException\<close> and returns nothing.
\<close>

theorem read_obj_unregistered_class:
  assumes "read_class_name pf (r\<lparr>fileobj := rest\<rparr>) = Inr (className, r4)"
    and "torch_readers className = None"
    and "objects r (le_sint [i0, i1, i2, i3]) = None"
  shows "read_obj pf (Suc depth) (r\<lparr>fileobj := [4, 0, 0, 0] @ [i0, i1, i2, i3] @ rest\<rparr>)
         = (if force_deserialize_classes r then
              (case read_obj pf depth r4 of
                 Inl e \<Rightarrow> Inl e
               | Inr (v, r5) \<Rightarrow>
                   Inr (VRef (length (heap r5)),
                        set_object (le_sint [i0, i1, i2, i3]) (VRef (length (heap r5)))
                          (r5\<lparr>heap := heap r5 @ [OTorch className v]\<rparr>)))
            else Inl (T7ReaderException
                       (ascii ''unsupported torch class: <'' @ className @ ascii ''>'')))"
proof -
  from read_class_name_same [OF assms(1)]
  have "force_deserialize_classes r4 = force_deserialize_classes (r\<lparr>fileobj := rest\<rparr>)"
    by (metis reader.select_convs reader.surjective reader.update_convs(1))
  then have f: "force_deserialize_classes r4 = force_deserialize_classes r"
    by simp
  show ?thesis
    using assms f
    by (simp add: read_obj.simps on_file_def read_int_bytes TYPE_defs le_sint_tags
          read_trivial_def alloc_def split: sum.splits prod.splits)
qed

lemma my_class_unregistered: "torch_readers (ascii ''my.Class'') = None"
  by code_simp

lemma read_class_name_my_class:
  "read_class_name lp64
     (r\<lparr>fileobj := [8, 0, 0, 0, 0x6D, 0x79, 0x2E, 0x43, 0x6C, 0x61, 0x73, 0x73, 0, 0, 0, 0]\<rparr>)
   = Inr (ascii ''my.Class'', r\<lparr>fileobj := [0, 0, 0, 0]\<rparr>)"
  by (simp add: read_class_name_def on_file_def read_string_def read_int_eq le_sint_def
       file_read_def cont_def ascii_def)

lemma read_obj_nil:
  "read_obj pf (Suc depth) (r\<lparr>fileobj := [0, 0, 0, 0] @ rest\<rparr>) = Inr (VNone, r\<lparr>fileobj := rest\<rparr>)"
  by (simp add: read_obj.simps on_file_def read_int_bytes TYPE_defs le_sint_tags)

theorem read_obj_unregistered_class_witness:
  "read_obj lp64 (Suc (Suc 0))
     ((T7Reader [] True True True False)
        \<lparr>fileobj := [4, 0, 0, 0] @ [1, 0, 0, 0]
           @ [8, 0, 0, 0, 0x6D, 0x79, 0x2E, 0x43, 0x6C, 0x61, 0x73, 0x73, 0, 0, 0, 0]\<rparr>)
   = Inr (VRef 0,
          set_object 1 (VRef 0)
            ((T7Reader [] True True True False)
               \<lparr>fileobj := [], heap := [OTorch (ascii ''my.Class'') VNone]\<rparr>))
   \<and> read_obj lp64 (Suc (Suc 0))
     ((T7Reader [] True True False False)
        \<lparr>fileobj := [4, 0, 0, 0] @ [1, 0, 0, 0]
           @ [8, 0, 0, 0, 0x6D, 0x79, 0x2E, 0x43, 0x6C, 0x61, 0x73, 0x73, 0, 0, 0, 0]\<rparr>)
   = Inl (T7ReaderException (ascii ''unsupported torch class: <my.Class>''))"
proof -
  have o: "objects (T7Reader [] True True fc False) (le_sint [1, 0, 0, 0]) = None" for fc
    by (simp add: T7Reader_def)
  have n: "read_obj lp64 (Suc 0) (r\<lparr>fileobj := [0, 0, 0, 0]\<rparr>) = Inr (VNone, r\<lparr>fileobj := []\<rparr>)"
    for r
    using read_obj_nil [where pf = lp64 and depth = 0 and r = r and rest = "[]"] by simp
  have l: "force_deserialize_classes (T7Reader [] True True fc False) = fc" for fc
    by (simp add: T7Reader_def)
  have h: "heap (T7Reader [] True True fc False) = []" for fc
    by (simp add: T7Reader_def)
  have m: "ascii ''unsupported torch class: <'' @ ascii ''my.Class'' @ ascii ''>''
            = ascii ''unsupported torch class: <my.Class>''"
    by (simp add: ascii_def)
  show ?thesis
    using read_obj_unregistered_class
            [OF read_class_name_my_class my_class_unregistered o [of True], where depth = "Suc 0"]
          read_obj_unregistered_class
            [OF read_class_name_my_class my_class_unregistered o [of False], where depth = "Suc 0"]
    by (simp add: n l h m le_sint_tags)
qed





section \<open>Tensors\<close>

lemma length_concat_chunks:
  "\<forall>x \<in> set xs. length x = w \<Longrightarrow> length (concat xs) = length xs * w"
  by (induction xs) auto

lemma chunks_concat:
  "\<forall>x \<in> set xs. length x = w \<Longrightarrow> chunks w (length xs) (concat xs @ rest) = xs"
  by (induction xs) auto

lemma read_longs_concat:
  "\<forall>x \<in> set xs. length x = 8 \<Longrightarrow>
   read_longs pf (length xs) (concat xs @ rest) = Inr (map le_sint xs, rest)"
  by (induction xs) (auto simp: read_long_eq)

lemma read_long_array_concat:
  assumes "\<forall>x \<in> set xs. length x = (if force then 8 else long_size pf)"
    and "n = int (length xs)"
  shows "read_long_array pf force n (concat xs @ rest) = Inr (map le_sint xs, rest)"
proof (cases force)
  case True
  with assms show ?thesis
    by (simp add: read_long_array_def read_longs_concat)
next
  case False
  with assms have l: "length (concat xs) = length xs * long_size pf"
    by (simp add: length_concat_chunks)
  have c: "chunks (long_size pf) (length xs) (concat xs) = xs"
    using chunks_concat [of xs "long_size pf" "[]"] assms(1) False by simp
  have f: "file_read (int (length xs) * int (long_size pf)) (concat xs @ rest)
             = Inr (concat xs, rest)"
    using file_read_nat [of "length xs * long_size pf" "concat xs @ rest"] l by simp
  from False assms(2) l c f show ?thesis
    by (simp add: read_long_array_def)
qed

text \<open>
  Claim C6: the payload of a tensor is \<open>ndim\<close> in four bytes, \<open>ndim\<close> longs of sizes,
  \<open>ndim\<close> longs of strides and one long of the storage offset, counted from 1, and then
  the storage, which \<open>read_obj\<close> reads (\<open>ro\<close> here). \<open>read_tensor_generic\<close> reads
  them in this order. When the storage is \<open>None\<close> or \<open>ndim\<close> is 0, and so both arrays
  are empty, the result is a new empty array of the tensor's element type. Otherwise,
  for a storage that is a numpy array and a shape numpy accepts, it is the view
  \<open>as_strided(storage[offset - 1:], sizes, strides)\<close>, each stride multiplied by the
  item size of the storage.
\<close>

theorem read_tensor_generic_layout:
  assumes "\<forall>x \<in> set szs. length x = long_width pf r"
    and "\<forall>x \<in> set strs. length x = long_width pf r"
    and "length off = long_width pf r"
    and "length szs = length strs"
    and "le_sint [n0, n1, n2, n3] = int (length szs)"
    and "ro (r\<lparr>fileobj := rest\<rparr>) = Inr (storage, r5)"
  shows "read_tensor_generic dt pf ro
           (r\<lparr>fileobj := [n0, n1, n2, n3] @ concat szs @ concat strs @ off @ rest\<rparr>)
         = (if storage = VNone \<or> length szs = 0 then
              Inr (VRef (length (heap r5)), r5\<lparr>heap := heap r5 @ [ONdArray (Owned dt [])]\<rparr>)
            else
              (case storage of
                 VRef b \<Rightarrow>
                   (case heap_get (heap r5) b of
                      Some (ONdArray nd) \<Rightarrow>
                        if np_shape_ok pf (map le_sint szs) then
                          Inr (VRef (length (heap r5)),
                               r5\<lparr>heap := heap r5 @
                                  [ONdArray (AsStrided (nd_dtype nd) b (le_sint off - 1)
                                     (map le_sint szs)
                                     (map (\<lambda>x. int (itemsize (nd_dtype nd)) * le_sint x) strs))]\<rparr>)
                        else Inl ValueError
                    | _ \<Rightarrow> Inl AttributeError)
               | _ \<Rightarrow> Inl AttributeError))"
proof -
  let ?f = "force_8bytes_long r"
  have a: "read_long_array pf ?f (int (length szs)) (concat szs @ concat strs @ off @ rest)
             = Inr (map le_sint szs, concat strs @ off @ rest)"
    using assms(1) by (intro read_long_array_concat) (simp_all add: long_width_def)
  have b: "read_long_array pf ?f (int (length szs)) (concat strs @ off @ rest)
             = Inr (map le_sint strs, off @ rest)"
    using assms(2,4) by (intro read_long_array_concat) (simp_all add: long_width_def)
  have c: "read_long pf ?f (off @ rest) = Inr (le_sint off, rest)"
    using assms(3) by (simp add: read_long_eq long_width_def)
  have e: "strs = [] \<longleftrightarrow> szs = []"
    using assms(4) by auto
  show ?thesis
    using assms(5,6)
    by (simp add: read_tensor_generic_def on_file_def read_int_bytes a b c e alloc_def comp_def
          Let_def split: pyval.splits option.splits pyobj.splits)
qed


lemma int_storage_registered:
  "torch_readers (ascii ''torch.IntStorage'') = Some (StorageReader Int32)"
  by code_simp

lemma read_class_name_int_storage:
  "read_class_name lp64
     (r\<lparr>fileobj := 16 # 0 # 0 # 0 # 0x74 # 0x6F # 0x72 # 0x63 # 0x68 # 0x2E # 0x49 # 0x6E
                     # 0x74 # 0x53 # 0x74 # 0x6F # 0x72 # 0x61 # 0x67 # 0x65 # rest\<rparr>)
   = Inr (ascii ''torch.IntStorage'', r\<lparr>fileobj := rest\<rparr>)"
  by (simp add: read_class_name_def on_file_def read_string_def read_int_eq le_sint_def
       file_read_def cont_def ascii_def)

lemma read_obj_int_storage:
  "read_obj lp64 (Suc 0)
     ((T7Reader_default [])
        \<lparr>fileobj := [4, 0, 0, 0] @ [2, 0, 0, 0]
           @ [16, 0, 0, 0, 0x74, 0x6F, 0x72, 0x63, 0x68, 0x2E, 0x49, 0x6E, 0x74,
              0x53, 0x74, 0x6F, 0x72, 0x61, 0x67, 0x65]
           @ [6, 0, 0, 0, 0, 0, 0, 0,
              0, 0, 0, 0, 1, 0, 0, 0, 2, 0, 0, 0, 3, 0, 0, 0, 4, 0, 0, 0, 5, 0, 0, 0]\<rparr>)
   = Inr (VRef 0,
          set_object 2 (VRef 0)
            ((T7Reader_default [])
               \<lparr>fileobj := [],
                heap := [ONdArray (Owned Int32
                  [0, 0, 0, 0, 1, 0, 0, 0, 2, 0, 0, 0, 3, 0, 0, 0, 4, 0, 0, 0, 5, 0, 0, 0])]\<rparr>))"
proof -
  have o: "objects (T7Reader_default []) 2 = None"
    by (simp add: T7Reader_default_def T7Reader_def)
  have f: "force_8bytes_long (T7Reader_default []) = False" "heap (T7Reader_default []) = []"
    by (simp_all add: T7Reader_default_def T7Reader_def)
  have l: "read_long lp64 False
             [6, 0, 0, 0, 0, 0, 0, 0,
              0, 0, 0, 0, 1, 0, 0, 0, 2, 0, 0, 0, 3, 0, 0, 0, 4, 0, 0, 0, 5, 0, 0, 0]
           = Inr (6, [0, 0, 0, 0, 1, 0, 0, 0, 2, 0, 0, 0, 3, 0, 0, 0, 4, 0, 0, 0, 5, 0, 0, 0])"
    by (simp add: read_long_eq lp64_def le_sint_def)
  show ?thesis
    by (simp add: read_obj.simps on_file_def read_int_bytes TYPE_defs le_sint_tags o f l
          read_class_name_int_storage int_storage_registered read_storage_def
          np_fromfile_def alloc_def)
qed

theorem read_tensor_generic_layout_witness:
  "read_tensor_generic Int32 lp64 (read_obj lp64 (Suc 0))
     ((T7Reader_default [])
        \<lparr>fileobj := [2, 0, 0, 0]
           @ concat [[2, 0, 0, 0, 0, 0, 0, 0], [3, 0, 0, 0, 0, 0, 0, 0]]
           @ concat [[3, 0, 0, 0, 0, 0, 0, 0], [1, 0, 0, 0, 0, 0, 0, 0]]
           @ [1, 0, 0, 0, 0, 0, 0, 0]
           @ ([4, 0, 0, 0] @ [2, 0, 0, 0]
              @ [16, 0, 0, 0, 0x74, 0x6F, 0x72, 0x63, 0x68, 0x2E, 0x49, 0x6E, 0x74,
                 0x53, 0x74, 0x6F, 0x72, 0x61, 0x67, 0x65]
              @ [6, 0, 0, 0, 0, 0, 0, 0,
                 0, 0, 0, 0, 1, 0, 0, 0, 2, 0, 0, 0, 3, 0, 0, 0, 4, 0, 0, 0, 5, 0, 0, 0])\<rparr>)
   = Inr (VRef 1,
          set_object 2 (VRef 0)
            ((T7Reader_default [])
               \<lparr>fileobj := [],
                heap := [ONdArray (Owned Int32
                  [0, 0, 0, 0, 1, 0, 0, 0, 2, 0, 0, 0, 3, 0, 0, 0, 4, 0, 0, 0, 5, 0, 0, 0]),
                         ONdArray (AsStrided Int32 0 0 [2, 3] [12, 4])]\<rparr>))
   \<and> read_tensor_generic Float64 lp64 (read_obj lp64 (Suc 0))
     ((T7Reader_default [])
        \<lparr>fileobj := [0, 0, 0, 0] @ concat [] @ concat [] @ [0, 0, 0, 0, 0, 0, 0, 0]
           @ [0, 0, 0, 0]\<rparr>)
   = Inr (VRef 0, (T7Reader_default [])\<lparr>fileobj := [], heap := [ONdArray (Owned Float64 [])]\<rparr>)"
proof -
  have w: "long_width lp64 (T7Reader_default []) = 8"
    by (simp add: long_width_def lp64_def T7Reader_default_def T7Reader_def)
  have h: "heap (T7Reader_default []) = []"
    by (simp add: T7Reader_default_def T7Reader_def)
  have v: "le_sint [2, 0, 0, 0, 0, 0, 0, 0] = 2" "le_sint [3, 0, 0, 0, 0, 0, 0, 0] = 3"
    "le_sint [1, 0, 0, 0, 0, 0, 0, 0] = 1"
    by (simp_all add: le_sint_def)
  have k: "np_shape_ok lp64 [2, 3]"
    by (simp add: lp64_def)
  have n: "read_obj lp64 (Suc 0) ((T7Reader_default [])\<lparr>fileobj := [0, 0, 0, 0]\<rparr>)
            = Inr (VNone, (T7Reader_default [])\<lparr>fileobj := []\<rparr>)"
    using read_obj_nil [where pf = lp64 and depth = 0 and r = "T7Reader_default []"
        and rest = "[]"] by simp
  have a: "\<forall>x \<in> set [[2, 0, 0, 0, 0, 0, 0, 0], [3, 0, 0, 0, 0, 0, 0, 0 :: byte]].
             length x = long_width lp64 (T7Reader_default [])"
    and b: "\<forall>x \<in> set [[3, 0, 0, 0, 0, 0, 0, 0], [1, 0, 0, 0, 0, 0, 0, 0 :: byte]].
             length x = long_width lp64 (T7Reader_default [])"
    and c: "length [1, 0, 0, 0, 0, 0, 0, 0 :: byte] = long_width lp64 (T7Reader_default [])"
    and c0: "length [0, 0, 0, 0, 0, 0, 0, 0 :: byte] = long_width lp64 (T7Reader_default [])"
    and d: "length [[2, 0, 0, 0, 0, 0, 0, 0], [3, 0, 0, 0, 0, 0, 0, 0 :: byte]]
             = length [[3, 0, 0, 0, 0, 0, 0, 0], [1, 0, 0, 0, 0, 0, 0, 0 :: byte]]"
    and e: "le_sint [2, 0, 0, 0]
             = int (length [[2, 0, 0, 0, 0, 0, 0, 0], [3, 0, 0, 0, 0, 0, 0, 0 :: byte]])"
    and e0: "le_sint [0, 0, 0, 0] = int (length ([] :: byte list list))"
    and z: "\<forall>x \<in> set ([] :: byte list list). length x = long_width lp64 (T7Reader_default [])"
    by (simp_all add: w le_sint_tags)
  have t1: "?thesis \<longleftrightarrow> True"
    unfolding
      read_tensor_generic_layout [where ro = "read_obj lp64 (Suc 0)" and pf = lp64
        and r = "T7Reader_default []", OF a b c d e read_obj_int_storage]
      read_tensor_generic_layout [where ro = "read_obj lp64 (Suc 0)" and pf = lp64
        and r = "T7Reader_default []" and rest = "[0, 0, 0, 0]", OF z z c0 refl e0 n]
    by (simp add: heap_get_def set_object_def h v k)
  then show ?thesis by simp
qed

end
